theory Spec2Isabelle
  imports Main
begin

section \<open>Python string operations used by the shell\<close>

text \<open>
  Strings of the source are Python \<open>str\<close> values; here they are lists of 8-bit
  characters, read as the code points below 256.  Each operation is the library
  method the source calls, written out for the arguments the source passes.
\<close>

text \<open>\<open>s.startswith(p)\<close>\<close>

fun startswith :: "string \<Rightarrow> string \<Rightarrow> bool" where
  "startswith s [] = True"
| "startswith [] (p # ps) = False"
| "startswith (c # cs) (p # ps) = (c = p \<and> startswith cs ps)"

text \<open>
  \<open>s.replace(old, new)\<close> for a non-empty \<open>old\<close>: one scan from the left; at a
  match the replacement is emitted and the scan resumes behind the match.
\<close>

function replace_scan :: "string \<Rightarrow> string \<Rightarrow> string \<Rightarrow> string" where
  "replace_scan old new [] = []"
| "replace_scan old new (c # cs) =
     (if old \<noteq> [] \<and> startswith (c # cs) old
      then new @ replace_scan old new (drop (length old) (c # cs))
      else c # replace_scan old new cs)"
  by pat_completeness auto
termination
  by (relation "measure (\<lambda>(old, new, s). length s)") auto

text \<open>
  \<open>s.replace(old, new)\<close>: with an empty \<open>old\<close> Python puts \<open>new\<close> before every
  character and at the end.
\<close>

definition py_replace :: "string \<Rightarrow> string \<Rightarrow> string \<Rightarrow> string" where
  "py_replace old new s =
     (if old = [] then new @ concat (map (\<lambda>c. c # new) s) else replace_scan old new s)"

text \<open>\<open>s.find(p)\<close>: the index of the first occurrence, or -1.\<close>

fun find_from :: "nat \<Rightarrow> string \<Rightarrow> string \<Rightarrow> int" where
  "find_from i [] p = (if p = [] then int i else - 1)"
| "find_from i (c # cs) p = (if startswith (c # cs) p then int i else find_from (Suc i) cs p)"

definition py_find :: "string \<Rightarrow> string \<Rightarrow> int" where
  "py_find s p = find_from 0 s p"

text \<open>
  \<open>s.rsplit(sep, 1)\<close> for a one-character separator: the text before and after the
  last occurrence, or \<open>None\<close> when there is none (Python then returns a one-element
  list).
\<close>

definition rsplit1 :: "char \<Rightarrow> string \<Rightarrow> (string \<times> string) option" where
  "rsplit1 sep s =
     (if sep \<in> set s
      then Some (rev (tl (dropWhile (\<lambda>x. x \<noteq> sep) (rev s))),
                 rev (takeWhile (\<lambda>x. x \<noteq> sep) (rev s)))
      else None)"

text \<open>\<open>c.isspace()\<close> on the code points below 256, and \<open>s.strip()\<close>.\<close>

definition py_isspace :: "char \<Rightarrow> bool" where
  "py_isspace c = (of_char c \<in> {9, 10, 11, 12, 13, 28, 29, 30, 31, 32, 133, 160 :: nat})"

definition py_strip :: "string \<Rightarrow> string" where
  "py_strip s = rev (dropWhile py_isspace (rev (dropWhile py_isspace s)))"

text \<open>\<open>sep.join(xs)\<close>\<close>

fun py_join :: "string \<Rightarrow> string list \<Rightarrow> string" where
  "py_join sep [] = []"
| "py_join sep [x] = x"
| "py_join sep (x # y # ys) = x @ sep @ py_join sep (y # ys)"

section \<open>Exceptions\<close>

text \<open>
  The exceptions the shell raises, catches or lets pass.  \<open>ValueError m a\<close> carries
  \<open>str(e)\<close> and the object's \<open>message\<close> attribute when it has one: the built-in class
  of Python 3 has none, so reading \<open>e.message\<close> raises \<open>AttributeError\<close>.
  \<open>IOError n m\<close> carries \<open>errno\<close> and \<open>strerror\<close>.  \<open>BaseOnly\<close> stands for the
  exceptions that are not instances of \<open>Exception\<close> (\<open>KeyboardInterrupt\<close>, \<open>SystemExit\<close>).
\<close>

datatype exn =
    ValueError string "string option"
  | IndexError string
  | IOError nat string
  | AttributeError string
  | TypeError string
  | OtherError string
  | BaseOnly string

fun is_IOError :: "exn \<Rightarrow> bool" where
  "is_IOError (IOError n m) = True"
| "is_IOError e = False"

fun is_Exception :: "exn \<Rightarrow> bool" where
  "is_Exception (BaseOnly m) = False"
| "is_Exception e = True"

section \<open>The tokenizer: \<open>shlex.split\<close>\<close>

text \<open>
  \<open>shlex.split(s)\<close> runs the POSIX-mode lexer of the standard library with
  \<open>whitespace_split\<close> set and no comment characters.  \<open>lex\<close> is the loop of
  \<open>read_token\<close>, iterated to the end of the input: \<open>st\<close> is \<open>self.state\<close>
  (a blank between tokens, \<open>a\<close> inside a word, the quote character inside
  quotes, the backslash after an escape), \<open>esc\<close> is \<open>escapedstate\<close>, \<open>quoted\<close>
  and \<open>tok\<close> are the flag and the token under construction.  A \<open>break\<close> of the
  loop emits the token and starts the next one.
\<close>

definition whitespace :: string where
  "whitespace = [CHR '' '', CHR 0x09, CHR 0x0D, CHR 0x0A]"

definition quotes :: string where
  "quotes = [CHR 0x27, CHR 0x22]"

definition escape :: string where
  "escape = [CHR 0x5C]"

definition escapedquotes :: string where
  "escapedquotes = [CHR 0x22]"

fun lex :: "char \<Rightarrow> char \<Rightarrow> bool \<Rightarrow> string \<Rightarrow> string \<Rightarrow> exn + string list" where
  "lex st esc quoted tok [] =
     (if st \<in> set quotes then Inl (ValueError ''No closing quotation'' None)
      else if st \<in> set escape then Inl (ValueError ''No escaped character'' None)
      else if tok \<noteq> [] \<or> quoted then Inr [tok]
      else Inr [])"
| "lex st esc quoted tok (c # cs) =
     (if st = CHR '' '' then
        (if c \<in> set whitespace then
           (if tok \<noteq> [] \<or> quoted
            then (case lex (CHR '' '') (CHR '' '') False [] cs of
                    Inl e \<Rightarrow> Inl e | Inr ts \<Rightarrow> Inr (tok # ts))
            else lex st esc quoted tok cs)
         else if c \<in> set escape then lex c (CHR ''a'') quoted tok cs
         else if c \<in> set quotes then lex c esc quoted tok cs
         else lex (CHR ''a'') esc quoted [c] cs)
      else if st \<in> set quotes then
        (if c = st then lex (CHR ''a'') esc True tok cs
         else if c \<in> set escape \<and> st \<in> set escapedquotes then lex c st True tok cs
         else lex st esc True (tok @ [c]) cs)
      else if st \<in> set escape then
        (if esc \<in> set quotes \<and> c \<noteq> st \<and> c \<noteq> esc
         then lex esc esc quoted (tok @ [st] @ [c]) cs
         else lex esc esc quoted (tok @ [c]) cs)
      else if st = CHR ''a'' then
        (if c \<in> set whitespace then
           (if tok \<noteq> [] \<or> quoted
            then (case lex (CHR '' '') (CHR '' '') False [] cs of
                    Inl e \<Rightarrow> Inl e | Inr ts \<Rightarrow> Inr (tok # ts))
            else lex (CHR '' '') esc quoted tok cs)
         else if c \<in> set quotes then lex c esc quoted tok cs
         else if c \<in> set escape then lex c (CHR ''a'') quoted tok cs
         else lex st esc quoted (tok @ [c]) cs)
      else lex st esc quoted tok cs)"

definition shlex_split :: "string \<Rightarrow> exn + string list" where
  "shlex_split s = lex (CHR '' '') (CHR '' '') False [] s"

section \<open>The session\<close>

text \<open>
  Streams are objects on a heap and are named by reference, so that "the same stream"
  is equality of references.  A \<open>Tee\<close> holds the reference of the console it
  duplicates, the destination's name and the mode the file was opened in.
\<close>

type_synonym ref = nat

datatype stream_obj = Console | Tee ref string char

type_synonym completer = nat

text \<open>
  The fields of \<open>Cmd\<close> (those set in \<open>__init__\<close> and those inherited from the
  standard \<open>cmd.Cmd\<close>), followed by the surroundings the object acts on: the text
  written to \<open>self.stderr\<close> and to the output streams, the text printed to the
  process's own output, the heap of streams, the files opened for redirection, the
  input still to be read, and the line editor (\<open>readline\<close>) with its history files.
  The dictionary \<open>variables\<close> is kept in insertion order, the order a \<open>for\<close>
  loop visits it.  \<open>open_error\<close>, \<open>write_error\<close> and \<open>read_error\<close> say which
  file operations the operating system refuses, with \<open>errno\<close> and \<open>strerror\<close>;
  \<open>on_darwin\<close> is the value of \<open>"darwin" in platform().lower()\<close>.
\<close>

record session =
  completer_stack :: "completer option list"
  history_stack :: "string option list"
  output_redirected :: "ref option"
  aliases :: "string \<Rightarrow> string option"
  history_file :: "string option"
  stdout :: ref
  stderr :: "string list"
  variables :: "(string \<times> string) list"
  lastcmd :: string
  cmdqueue :: "string list"
  use_rawinput :: bool
  completekey :: string
  prompt :: string
  intro :: "string option"
  complete :: completer
  out_log :: "(ref \<times> string) list"
  printed :: "string list"
  heap :: "stream_obj list"
  opened :: "(string \<times> char) list"
  open_error :: "string \<Rightarrow> char \<Rightarrow> (nat \<times> string) option"
  stdin :: "string list"
  has_readline :: bool
  rl_completer :: "completer option"
  rl_delims :: string
  rl_history :: "string list"
  rl_bindings :: "string list"
  hist_files :: "string \<Rightarrow> string list option"
  write_error :: "string \<Rightarrow> (nat \<times> string) option"
  read_error :: "string \<Rightarrow> (nat \<times> string) option"
  on_darwin :: bool

definition nl :: string where
  "nl = [CHR 0x0A]"

text \<open>The single quote, the double quote and the backslash, for the messages.\<close>

definition sq :: string where
  "sq = [CHR 0x27]"

definition dq :: string where
  "dq = [CHR 0x22]"

definition bs :: string where
  "bs = [CHR 0x5C]"

text \<open>\<open>self.stderr.write(text)\<close>\<close>

definition stderr_write :: "string \<Rightarrow> session \<Rightarrow> session" where
  "stderr_write text s = s\<lparr>stderr := stderr s @ [text]\<rparr>"

text \<open>\<open>self.stdout.write(text)\<close>\<close>

definition stdout_write :: "string \<Rightarrow> session \<Rightarrow> session" where
  "stdout_write text s = s\<lparr>out_log := out_log s @ [(stdout s, text)]\<rparr>"

section \<open>Substitution\<close>

text \<open>\<open>argv[-1]\<close> and \<open>argv[1]\<close>, which raise on a list that is too short.\<close>

definition list_last :: "string list \<Rightarrow> exn + string" where
  "list_last argv = (if argv = [] then Inl (IndexError ''list index out of range'') else Inr (last argv))"

definition list_second :: "string list \<Rightarrow> exn + string" where
  "list_second argv =
     (if length argv < 2 then Inl (IndexError ''list index out of range'') else Inr (argv ! 1))"

text \<open>
  \<open>__do_last_command_substitutions\<close>: the arguments of the four \<open>replace\<close> calls
  are evaluated in the order of the statements, whatever the line holds.
\<close>

definition do_last_command_substitutions :: "session \<Rightarrow> string \<Rightarrow> (exn + string) \<times> session" where
  "do_last_command_substitutions s line =
     (if lastcmd s \<noteq> [] then
        (case shlex_split (lastcmd s) of
           Inl e \<Rightarrow> (Inl e, s)
         | Inr argv \<Rightarrow>
             (case list_last argv of
                Inl e \<Rightarrow> (Inl e, s)
              | Inr a \<Rightarrow>
                  (case list_second argv of
                     Inl e \<Rightarrow> (Inl e, s)
                   | Inr b \<Rightarrow>
                       (Inr (py_replace ''!*'' (py_join '' '' (tl argv))
                              (py_replace ''!^'' b
                                (py_replace ''!$'' a
                                  (py_replace ''!!'' (lastcmd s) line)))), s))))
      else (Inr [], stderr_write (''no previous command'' @ nl) s))"

text \<open>The loop over \<open>self.variables\<close> in \<open>__do_substitutions\<close>.\<close>

fun subst_vars :: "(string \<times> string) list \<Rightarrow> string \<Rightarrow> string" where
  "subst_vars [] line = line"
| "subst_vars ((name, v) # vs) line = subst_vars vs (py_replace (CHR ''$'' # name) v line)"

definition has_bang :: "string \<Rightarrow> bool" where
  "has_bang line =
     (py_find line ''!!'' \<ge> 0 \<or> py_find line ''!$'' \<ge> 0 \<or>
      py_find line ''!^'' \<ge> 0 \<or> py_find line ''!*'' \<ge> 0)"

definition do_substitutions :: "session \<Rightarrow> string \<Rightarrow> (exn + string) \<times> session" where
  "do_substitutions s line =
     (if line = [] then (Inr [], s)
      else if has_bang (subst_vars (variables s) line)
      then do_last_command_substitutions s (subst_vars (variables s) line)
      else (Inr (subst_vars (variables s) line), s))"

section \<open>Output redirection\<close>

text \<open>
  Modelled from the spec: the constructor \<open>system.Tee(console, destination, mode)\<close>,
  whose module is not part of this file.  It "opens the destination for writing in the
  chosen mode and returns a duplicating writer that forwards every write to both the
  previous output and the file"; a refused open raises \<open>IOError\<close>.  The new object
  takes the next free reference.
\<close>

definition Tee_new :: "session \<Rightarrow> ref \<Rightarrow> string \<Rightarrow> char \<Rightarrow> (exn + ref) \<times> session" where
  "Tee_new s console destination mode =
     (case open_error s destination mode of
        Some (n, m) \<Rightarrow> (Inl (IOError n m), s)
      | None \<Rightarrow>
          (Inr (length (heap s)),
           s\<lparr>heap := heap s @ [Tee console destination mode],
             opened := opened s @ [(destination, mode)]\<rparr>))"

text \<open>\<open>__build_tee\<close>\<close>

definition build_tee :: "session \<Rightarrow> ref \<Rightarrow> string \<Rightarrow> (exn + ref) \<times> session" where
  "build_tee s console destination =
     (case destination of
        [] \<Rightarrow> (Inl (IndexError ''string index out of range''), s)
      | c # cs \<Rightarrow>
          (if c = CHR ''>''
           then Tee_new s console (py_strip cs) (CHR ''a'')
           else Tee_new s console (py_strip destination) (CHR ''w'')))"

text \<open>\<open>__redirect_output\<close>\<close>

definition redirect_output :: "session \<Rightarrow> string \<Rightarrow> (exn + string) \<times> session" where
  "redirect_output s line =
     (case rsplit1 (CHR ''>'') line of
        None \<Rightarrow> (Inl (ValueError ''not enough values to unpack (expected 2, got 1)'' None), s)
      | Some (line', destination) \<Rightarrow>
          (if length destination > 0 then
             (case build_tee (s\<lparr>output_redirected := Some (stdout s)\<rparr>) (stdout s) destination of
                (Inr tee, s') \<Rightarrow> (Inr line', s'\<lparr>stdout := tee\<rparr>)
              | (Inl (IOError n m), s') \<Rightarrow>
                  (Inr [], stderr_write (''Error processing your redirection target: '' @ m @ ''.e'' @ nl) s')
              | (Inl e, s') \<Rightarrow> (Inl e, s'))
           else (Inr [], stderr_write (''No redirection target specified.'' @ nl) s)))"

text \<open>\<open>precmd\<close>\<close>

definition precmd :: "session \<Rightarrow> string \<Rightarrow> (exn + string) \<times> session" where
  "precmd s line =
     (case do_substitutions s line of
        (Inl e, s') \<Rightarrow> (Inl e, s')
      | (Inr line', s') \<Rightarrow>
          (case shlex_split line' of
             Inl e \<Rightarrow> (Inl e, s')
           | Inr parsed_line \<Rightarrow>
               (if ''>'' \<in> set parsed_line \<or> ''>>'' \<in> set parsed_line
                then redirect_output s' line'
                else (Inr line', s'))))"

text \<open>\<open>postcmd\<close>\<close>

definition postcmd :: "session \<Rightarrow> bool \<Rightarrow> string \<Rightarrow> bool \<times> session" where
  "postcmd s stop line =
     (case output_redirected s of
        Some original \<Rightarrow> (stop, s\<lparr>stdout := original, output_redirected := None\<rparr>)
      | None \<Rightarrow> (stop, s))"

section \<open>Dispatch\<close>

text \<open>
  The \<open>do_\<close> methods of the object (those of this class and those a host adds) are a
  table from the command's name to its handler; a handler takes the argument string
  and returns the stop flag or raises.  \<open>parseline\<close> and \<open>onecmd\<close> are the methods
  of the standard \<open>cmd.Cmd\<close> that the class inherits.
\<close>

type_synonym handler = "string \<Rightarrow> session \<Rightarrow> (exn + bool) \<times> session"

type_synonym handlers = "string \<Rightarrow> handler option"

definition identchars :: string where
  "identchars = ''abcdefghijklmnopqrstuvwxyzABCDEFGHIJKLMNOPQRSTUVWXYZ0123456789_''"

definition split_command :: "string \<Rightarrow> string option \<times> string option \<times> string" where
  "split_command line =
     (Some (takeWhile (\<lambda>c. c \<in> set identchars) line),
      Some (py_strip (dropWhile (\<lambda>c. c \<in> set identchars) line)),
      line)"

definition parseline :: "handlers \<Rightarrow> string \<Rightarrow> string option \<times> string option \<times> string" where
  "parseline hs line0 =
     (case py_strip line0 of
        [] \<Rightarrow> (None, None, [])
      | c # cs \<Rightarrow>
          (if c = CHR ''?'' then split_command (''help '' @ cs)
           else if c = CHR ''!'' then
             (if hs ''shell'' \<noteq> None then split_command (''shell '' @ cs)
              else (None, None, c # cs))
           else split_command (c # cs)))"

text \<open>
  \<open>default\<close>: the alias lookup of this class.  The result of the aliased handler is
  dropped (the method has no \<open>return\<close>); otherwise the standard \<open>default\<close> reports
  the unknown syntax on the output stream.
\<close>

definition default_cmd :: "handlers \<Rightarrow> session \<Rightarrow> string \<Rightarrow> (exn + bool) \<times> session" where
  "default_cmd hs s line =
     (case shlex_split line of
        Inl e \<Rightarrow> (Inl e, s)
      | Inr [] \<Rightarrow> (Inl (IndexError ''list index out of range''), s)
      | Inr (a # rest) \<Rightarrow>
          (case aliases s a of
             Some target \<Rightarrow>
               (case hs target of
                  None \<Rightarrow> (Inl (AttributeError (sq @ ''Cmd'' @ sq @ '' object has no attribute '' @ sq @ ''do_'' @ target @ sq)), s)
                | Some h \<Rightarrow>
                    (case h (py_join '' '' rest) s of
                       (Inl e, s') \<Rightarrow> (Inl e, s')
                     | (Inr r, s') \<Rightarrow> (Inr False, s')))
           | None \<Rightarrow> (Inr False, stdout_write (''*** Unknown syntax: '' @ line @ nl) s)))"

definition onecmd :: "handlers \<Rightarrow> session \<Rightarrow> string \<Rightarrow> (exn + bool) \<times> session" where
  "onecmd hs s line0 =
     (case parseline hs line0 of
        (cmd, arg, line) \<Rightarrow>
          (if line = [] then (Inr False, s)
           else
             (case (cmd, arg) of
                (Some c, Some a) \<Rightarrow>
                  (let s' = s\<lparr>lastcmd := (if line = ''EOF'' then [] else line)\<rparr> in
                   if c = [] then default_cmd hs s' line
                   else (case hs c of None \<Rightarrow> default_cmd hs s' line | Some h \<Rightarrow> h a s'))
              | _ \<Rightarrow> default_cmd hs s line)))"

text \<open>
  One pass of the body of the loop's inner \<open>try\<close>: \<open>precmd\<close>, \<open>onecmd\<close>,
  \<open>postcmd\<close>; an exception of the first two leaves the block before \<open>postcmd\<close>.
\<close>

definition cycle :: "handlers \<Rightarrow> session \<Rightarrow> string \<Rightarrow> (exn + bool) \<times> session" where
  "cycle hs s line =
     (case precmd s line of
        (Inl e, s1) \<Rightarrow> (Inl e, s1)
      | (Inr line', s1) \<Rightarrow>
          (case onecmd hs s1 line' of
             (Inl e, s2) \<Rightarrow> (Inl e, s2)
           | (Inr stop, s2) \<Rightarrow> (case postcmd s2 stop line' of (stop', s3) \<Rightarrow> (Inr stop', s3))))"

section \<open>The completion and history context stack\<close>

text \<open>
  The calls into the line editor.  Writing and reading a history file can be refused
  by the operating system; reading a file that does not exist is refused too.
\<close>

definition write_history_file :: "string \<Rightarrow> session \<Rightarrow> (exn + unit) \<times> session" where
  "write_history_file path s =
     (case write_error s path of
        Some (n, m) \<Rightarrow> (Inl (IOError n m), s)
      | None \<Rightarrow> (Inr (), s\<lparr>hist_files := (hist_files s)(path \<mapsto> rl_history s)\<rparr>))"

definition read_history_file :: "string \<Rightarrow> session \<Rightarrow> (exn + unit) \<times> session" where
  "read_history_file path s =
     (case hist_files s path of
        None \<Rightarrow> (Inl (IOError 2 ''No such file or directory''), s)
      | Some h \<Rightarrow>
          (case read_error s path of
             Some (n, m) \<Rightarrow> (Inl (IOError n m), s)
           | None \<Rightarrow> (Inr (), s\<lparr>rl_history := rl_history s @ h\<rparr>)))"

text \<open>\<open>str(e)\<close>; a number is printed in decimal.\<close>

definition digit_char :: "nat \<Rightarrow> char" where
  "digit_char d = char_of (48 + d)"

function decimal :: "nat \<Rightarrow> string" where
  "decimal n = (if n < 10 then [digit_char n] else decimal (n div 10) @ [digit_char (n mod 10)])"
  by pat_completeness auto
termination
  by (relation "measure (\<lambda>n. n)") auto

declare decimal.simps [simp del]

fun str_exn :: "exn \<Rightarrow> string" where
  "str_exn (ValueError m a) = m"
| "str_exn (IndexError m) = m"
| "str_exn (IOError n m) = ''[Errno '' @ decimal n @ ''] '' @ m"
| "str_exn (AttributeError m) = m"
| "str_exn (TypeError m) = m"
| "str_exn (OtherError m) = m"
| "str_exn (BaseOnly m) = m"

text \<open>
  The test \<open>len(stack) > 0 and stack[-1]\<close> on the history stack: the file named by
  the last entry, when there is an entry and it is neither \<open>None\<close> nor the empty string.
\<close>

definition top_file :: "string option list \<Rightarrow> string option" where
  "top_file stack =
     (case rev stack of
        [] \<Rightarrow> None
      | None # below \<Rightarrow> None
      | Some path # below \<Rightarrow> (if path = [] then None else Some path))"

text \<open>
  \<open>push_completer\<close>.  In the handler of the failed read the two lines \<open>print\<close> and
  the string are expressions without effect.
\<close>

definition push_completer ::
  "completer option \<Rightarrow> string option \<Rightarrow> session \<Rightarrow> (exn + unit) \<times> session" where
  "push_completer completer hfile s =
     (if has_readline s then
        (let s1 = s\<lparr>completer_stack := completer_stack s @ [rl_completer s],
                    rl_completer := completer,
                    rl_delims := py_replace ''/'' [] (rl_delims s)\<rparr> in
         case (case top_file (history_stack s1) of
                 Some path \<Rightarrow> write_history_file path s1
               | None \<Rightarrow> (Inr (), s1)) of
           (Inl e, s2) \<Rightarrow> (Inl e, s2)
         | (Inr u, s2) \<Rightarrow>
             (let s3 = s2\<lparr>history_stack := history_stack s2 @ [hfile], rl_history := []\<rparr> in
              case (case hfile of
                      None \<Rightarrow> (Inr (), s3)
                    | Some path \<Rightarrow>
                        (if hist_files s3 path \<noteq> None then
                           (case read_history_file path s3 of
                              (Inl e, s4) \<Rightarrow>
                                (if is_IOError e then
                                   (if on_darwin s4 \<and>
                                       py_strip (str_exn e) = ''[Errno 1] Operation not permitted''
                                    then (Inr (), s4) else (Inl e, s4))
                                 else (Inl e, s4))
                            | (Inr u', s4) \<Rightarrow> (Inr (), s4))
                         else (Inr (), s3))) of
                (Inl e, s5) \<Rightarrow> (Inl e, s5)
              | (Inr u', s5) \<Rightarrow>
                  (Inr (), s5\<lparr>rl_bindings := rl_bindings s5 @ [completekey s5 @ '': complete'']\<rparr>)))
      else (Inr (), s))"

text \<open>
  \<open>pop_completer\<close>.  The argument \<open>self.__history_stack.pop()\<close> is evaluated before
  the file is written, so the entry is gone when the write raises.
\<close>

definition pop_completer :: "session \<Rightarrow> (exn + unit) \<times> session" where
  "pop_completer s =
     (if has_readline s then
        (case rev (history_stack s) of
           [] \<Rightarrow> (Inl (IndexError ''list index out of range''), s)
         | entry # below \<Rightarrow>
             (case (case entry of
                      Some path \<Rightarrow> write_history_file path (s\<lparr>history_stack := rev below\<rparr>)
                    | None \<Rightarrow> (Inr (), s\<lparr>history_stack := rev below\<rparr>)) of
                (Inl e, s1) \<Rightarrow> (Inl e, s1)
              | (Inr u, s1) \<Rightarrow>
                  (let s2 = s1\<lparr>rl_history := []\<rparr> in
                   case (case top_file (history_stack s2) of
                           Some path' \<Rightarrow> read_history_file path' s2
                         | None \<Rightarrow> (Inr (), s2)) of
                     (Inl e, s3) \<Rightarrow> (Inl e, s3)
                   | (Inr u', s3) \<Rightarrow>
                       (case rev (completer_stack s3) of
                          [] \<Rightarrow> (Inl (IndexError ''pop from empty list''), s3)
                        | c # cs \<Rightarrow>
                            (Inr (), s3\<lparr>completer_stack := rev cs, rl_completer := c\<rparr>)))))
      else (Inr (), s))"




section \<open>The command loop\<close>

text \<open>\<open>handleException\<close>\<close>

definition handleException :: "session \<Rightarrow> exn \<Rightarrow> bool \<Rightarrow> session" where
  "handleException s e shutup =
     (if shutup then s else stderr_write (''Exception occured: '' @ str_exn e @ nl) s)"

text \<open>
  \<open>preloop\<close>: the introduction goes to the output stream.  \<open>checkVer\<close> only prints
  notices that depend on the version service, which is not part of this file, and
  swallows every error; it leaves the session as it is.
\<close>

definition preloop :: "session \<Rightarrow> session" where
  "preloop s =
     (case intro s of
        None \<Rightarrow> s
      | Some text \<Rightarrow> (if text = [] then s else stdout_write (text @ nl) s))"

text \<open>
  Reading the next line: from \<open>cmdqueue\<close> first; else from the input, where the end of
  the input reads as the line \<open>EOF\<close>.  \<open>stdin\<close> lists what the successive reads
  return: the lines \<open>input\<close> returns, or the raw lines of \<open>readline\<close> with their terminators.
\<close>

definition rstrip_crlf :: "string \<Rightarrow> string" where
  "rstrip_crlf l = rev (dropWhile (\<lambda>c. c = CHR 0x0D \<or> c = CHR 0x0A) (rev l))"

definition read_line :: "session \<Rightarrow> string \<times> session" where
  "read_line s =
     (case cmdqueue s of
        l # ls \<Rightarrow> (l, s\<lparr>cmdqueue := ls\<rparr>)
      | [] \<Rightarrow>
          (if use_rawinput s then
             (case stdin s of
                [] \<Rightarrow> (''EOF'', s)
              | l # ls \<Rightarrow> (l, s\<lparr>stdin := ls\<rparr>))
           else
             (case stdin (stdout_write (prompt s) s) of
                [] \<Rightarrow> (''EOF'', stdout_write (prompt s) s)
              | l # ls \<Rightarrow>
                  (if length l = 0 then (''EOF'', (stdout_write (prompt s) s)\<lparr>stdin := ls\<rparr>)
                   else (rstrip_crlf l, (stdout_write (prompt s) s)\<lparr>stdin := ls\<rparr>)))))"

text \<open>
  The handler of the inner \<open>try\<close>: a \<open>ValueError\<close> is caught and its \<open>message\<close>
  attribute is read.  The result is \<open>Inr\<close> of the session when the loop goes on and
  \<open>Inl\<close> of the exception that leaves the loop.
\<close>

definition on_value_error :: "exn \<Rightarrow> session \<Rightarrow> exn + session" where
  "on_value_error e s =
     (case e of
        ValueError m None \<Rightarrow> Inl (AttributeError (sq @ ''ValueError'' @ sq @ '' object has no attribute '' @ sq @ ''message'' @ sq))
      | ValueError m (Some msg) \<Rightarrow>
          (if msg = ''No closing quotation''
           then Inr (stderr_write
                  (''Did you want a single '' @ sq @ '' or '' @ dq @ ''? You need to escape it ('' @ bs @ sq @
                   '' or '' @ bs @ dq @ '') or surround it with the other type of quotation marks ('' @
                   dq @ sq @ dq @ '' or '' @ sq @ dq @ sq @ '').'' @ nl @ nl)
                  (stderr_write
                    (''Failed to parse your command, because there were unmatched quotation marks.'' @ nl) s))
           else Inl e)
      | _ \<Rightarrow> Inl e)"

text \<open>
  The \<open>while not stop\<close> loop.  It need not end (at the end of the input the line
  \<open>EOF\<close> is read again and again unless a handler stops the loop), so it runs on
  fuel: \<open>None\<close> is "still running when the fuel was spent".
\<close>

fun loop :: "nat \<Rightarrow> handlers \<Rightarrow> session \<Rightarrow> ((exn + unit) \<times> session) option" where
  "loop 0 hs s = None"
| "loop (Suc n) hs s =
     (case read_line s of
        (line, s1) \<Rightarrow>
          (case cycle hs s1 line of
             (Inr stop, s2) \<Rightarrow> (if stop then Some (Inr (), s2) else loop n hs s2)
           | (Inl e, s2) \<Rightarrow>
               (case on_value_error e s2 of
                  Inr s3 \<Rightarrow> loop n hs s3
                | Inl e' \<Rightarrow> Some (Inl e', s2))))"

text \<open>
  \<open>cmdloop\<close>: the outer \<open>try\<close> reports an \<open>Exception\<close> and ends the loop; the
  \<open>finally\<close> clause pops the completer.  An exception that is not an \<open>Exception\<close>,
  or one raised by the push or the pop, leaves \<open>cmdloop\<close>.
\<close>

definition cmdloop :: "nat \<Rightarrow> handlers \<Rightarrow> session \<Rightarrow> ((exn + unit) \<times> session) option" where
  "cmdloop fuel hs s =
     (case (if use_rawinput s \<and> completekey s \<noteq> []
            then push_completer (Some (complete s)) (history_file s) (preloop s)
            else (Inr (), preloop s)) of
        (Inl e, s1) \<Rightarrow> Some (Inl e, s1)
      | (Inr u, s1) \<Rightarrow>
          (case loop fuel hs s1 of
             None \<Rightarrow> None
           | Some (r, s2) \<Rightarrow>
               (let (r', s3) =
                      (case r of
                         Inr u' \<Rightarrow> (Inr (), s2)
                       | Inl e \<Rightarrow>
                           (if is_Exception e
                            then (Inr (), handleException (s2\<lparr>printed := printed s2 @ [''Loop exception'']\<rparr>) e False)
                            else (Inl e, s2)))
                in if use_rawinput s3 \<and> completekey s3 \<noteq> []
                   then (case pop_completer s3 of
                           (Inl e, s4) \<Rightarrow> Some (Inl e, s4)
                         | (Inr u', s4) \<Rightarrow> Some (r', s4))
                   else Some (r', s3))))"

section \<open>A session to run\<close>

text \<open>
  The object as \<open>__init__\<close> leaves it (with the defaults of \<open>cmd.Cmd\<close>), in
  surroundings where the console is the only stream, the line editor is present and
  holds no completer, and the only file operation refused is opening the file with the
  empty name.
\<close>

definition fresh :: session where
  "fresh =
     \<lparr>completer_stack = [], history_stack = [], output_redirected = None,
      aliases = (\<lambda>a. None), history_file = None, stdout = 0, stderr = [],
      variables = [], lastcmd = [], cmdqueue = [], use_rawinput = True,
      completekey = ''tab'', prompt = ''(Cmd) '', intro = None, complete = 0,
      out_log = [], printed = [], heap = [Console], opened = [],
      open_error = (\<lambda>path mode. if path = [] then Some (2, ''No such file or directory'') else None),
      stdin = [], has_readline = True, rl_completer = None, rl_delims = '' /'',
      rl_history = [], rl_bindings = [], hist_files = (\<lambda>path. None),
      write_error = (\<lambda>path. None), read_error = (\<lambda>path. None), on_darwin = False\<rparr>"

text \<open>A handler table with the one command \<open>foo\<close>, which raises.\<close>

definition raising :: handlers where
  "raising name =
     (if name = ''foo'' then Some (\<lambda>arg s. (Inl (OtherError ''boom''), s)) else None)"

text \<open>A handler table with the one command \<open>foo\<close>, which returns without stopping.\<close>

definition quiet :: handlers where
  "quiet name = (if name = ''foo'' then Some (\<lambda>arg s. (Inr False, s)) else None)"

section \<open>Facts about the string operations\<close>

lemmas lex_defs = shlex_split_def whitespace_def quotes_def escape_def escapedquotes_def

lemmas subst_defs = do_last_command_substitutions_def do_substitutions_def has_bang_def
  py_find_def py_replace_def list_last_def list_second_def stderr_write_def nl_def

lemma startswith_append: "startswith (p @ r) p"
  by (induction p) simp_all

text \<open>A line in which the pattern begins nowhere is left as it is.\<close>

lemma replace_scan_no_match:
  "\<forall>i<length s. \<not> startswith (drop i s) pat \<Longrightarrow> replace_scan pat v s = s"
proof (induction s)
  case Nil
  show ?case by simp
next
  case (Cons c cs)
  from Cons.prems have here: "\<not> startswith (c # cs) pat" by force
  have "\<forall>i<length cs. \<not> startswith (drop i cs) pat"
  proof (intro allI impI)
    fix i assume "i < length cs"
    then have "Suc i < length (c # cs)" by simp
    with Cons.prems have "\<not> startswith (drop (Suc i) (c # cs)) pat" by blast
    then show "\<not> startswith (drop i cs) pat" by simp
  qed
  with Cons.IH here show ?case by simp
qed

text \<open>
  At the leftmost occurrence of the pattern the value is put in as it is, and the scan
  goes on behind the occurrence.
\<close>

lemma replace_scan_leftmost:
  assumes "pat \<noteq> []"
  shows "\<forall>i<length p. \<not> startswith (drop i (p @ pat @ r)) pat \<Longrightarrow>
         replace_scan pat v (p @ pat @ r) = p @ v @ replace_scan pat v r"
proof (induction p)
  case Nil
  from assms obtain c cs where pc: "pat @ r = c # cs" by (cases pat) auto
  have "startswith (pat @ r) pat" by (rule startswith_append)
  with assms pc have "replace_scan pat v (c # cs) = v @ replace_scan pat v (drop (length pat) (c # cs))"
    by simp
  with pc show ?case by (metis append_Nil append_eq_conv_conj)
next
  case (Cons c p)
  from Cons.prems have here: "\<not> startswith ((c # p) @ pat @ r) pat" by force
  have "\<forall>i<length p. \<not> startswith (drop i (p @ pat @ r)) pat"
  proof (intro allI impI)
    fix i assume "i < length p"
    then have "Suc i < length (c # p)" by simp
    with Cons.prems have "\<not> startswith (drop (Suc i) ((c # p) @ pat @ r)) pat" by blast
    then show "\<not> startswith (drop i (p @ pat @ r)) pat" by simp
  qed
  with Cons.IH here show ?case by simp
qed

lemma subst_vars_append:
  "subst_vars (vs @ ws) line = subst_vars ws (subst_vars vs line)"
  by (induction vs arbitrary: line) auto

lemma subst_vars_Nil: "subst_vars vs [] = []"
  by (induction vs) (auto simp: py_replace_def)

lemma has_bang_Nil: "\<not> has_bang []"
  by (simp add: has_bang_def py_find_def)

lemma split_last_command:
  "shlex_split ''run app.package.info -a com.example.app'' =
     Inr [''run'', ''app.package.info'', ''-a'', ''com.example.app'']"
  by (simp add: lex_defs)

section \<open>History substitution\<close>

text \<open>
  C3, as the code has it.  With the last command
  \<open>run app.package.info -a com.example.app\<close>, the token \<open>!$\<close> expands to
  \<open>com.example.app\<close>, \<open>!^\<close> to the first argument \<open>app.package.info\<close> (the second
  token), \<open>!*\<close> to \<open>app.package.info -a com.example.app\<close> and \<open>!!\<close> to the whole
  last command; the session is left as it was.
\<close>

theorem bang_expansion_of_example:
  "do_last_command_substitutions (s\<lparr>lastcmd := ''run app.package.info -a com.example.app''\<rparr>) ''!$''
     = (Inr ''com.example.app'', s\<lparr>lastcmd := ''run app.package.info -a com.example.app''\<rparr>) \<and>
   do_last_command_substitutions (s\<lparr>lastcmd := ''run app.package.info -a com.example.app''\<rparr>) ''!^''
     = (Inr ''app.package.info'', s\<lparr>lastcmd := ''run app.package.info -a com.example.app''\<rparr>) \<and>
   do_last_command_substitutions (s\<lparr>lastcmd := ''run app.package.info -a com.example.app''\<rparr>) ''!*''
     = (Inr ''app.package.info -a com.example.app'',
        s\<lparr>lastcmd := ''run app.package.info -a com.example.app''\<rparr>) \<and>
   do_last_command_substitutions (s\<lparr>lastcmd := ''run app.package.info -a com.example.app''\<rparr>) ''!!''
     = (Inr ''run app.package.info -a com.example.app'',
        s\<lparr>lastcmd := ''run app.package.info -a com.example.app''\<rparr>)"
  by (simp add: subst_defs split_last_command)

text \<open>
  C3 as the claim states it fails: \<open>!^\<close> does not expand to \<open>run\<close>, neither in
  the history step alone nor through \<open>__do_substitutions\<close>.
\<close>

theorem bang_caret_is_not_first_token:
  "fst (do_last_command_substitutions
          (fresh\<lparr>lastcmd := ''run app.package.info -a com.example.app''\<rparr>) ''!^'') \<noteq> Inr ''run'' \<and>
   fst (do_substitutions
          (fresh\<lparr>lastcmd := ''run app.package.info -a com.example.app''\<rparr>) ''!^'') = Inr ''app.package.info''"
  by (simp add: subst_defs split_last_command fresh_def)

text \<open>
  C7.  With no previous command (\<open>lastcmd\<close> is empty), the history step on a line that
  holds one of the four tokens writes \<open>no previous command\<close> to the error stream and
  returns the empty string; it returns a value, it does not raise.  The same is the
  result of \<open>__do_substitutions\<close> on every line that holds such a token once the
  variables are substituted.
\<close>

theorem no_previous_command:
  assumes "lastcmd s = []" and "has_bang line"
  shows "do_last_command_substitutions s line
           = (Inr [], stderr_write (''no previous command'' @ nl) s) \<and>
         (\<forall>l. subst_vars (variables s) l = line \<longrightarrow>
            do_substitutions s l = (Inr [], stderr_write (''no previous command'' @ nl) s))"
proof -
  have direct: "do_last_command_substitutions s line
                  = (Inr [], stderr_write (''no previous command'' @ nl) s)"
    using assms(1) by (simp add: do_last_command_substitutions_def)
  have "do_substitutions s l = (Inr [], stderr_write (''no previous command'' @ nl) s)"
    if "subst_vars (variables s) l = line" for l
  proof -
    from that assms(2) have "l \<noteq> []"
      using subst_vars_Nil has_bang_Nil by metis
    with that assms(2) direct show ?thesis
      by (simp add: do_substitutions_def)
  qed
  with direct show ?thesis by blast
qed

theorem no_previous_command_witness:
  "do_last_command_substitutions fresh ''echo !!''
     = (Inr [], stderr_write (''no previous command'' @ nl) fresh) \<and>
   do_substitutions fresh ''echo !!''
     = (Inr [], stderr_write (''no previous command'' @ nl) fresh) \<and>
   stderr (stderr_write (''no previous command'' @ nl) fresh) = [''no previous command'' @ nl]"
proof -
  have a: "lastcmd fresh = []" by (simp add: fresh_def)
  have b: "has_bang ''echo !!''" by (simp add: has_bang_def py_find_def)
  have c: "subst_vars (variables fresh) ''echo !!'' = ''echo !!''" by (simp add: fresh_def)
  have d: "stderr (stderr_write (''no previous command'' @ nl) fresh) = [''no previous command'' @ nl]"
    by (simp add: stderr_write_def fresh_def)
  from no_previous_command [OF a b] c d show ?thesis by blast
qed

text \<open>
  C9.  When the last command is not empty and splits into fewer than two tokens, the
  history step raises \<open>IndexError\<close> on every line that holds one of the four tokens,
  whichever token it is: the arguments \<open>argv[-1]\<close> and \<open>argv[1]\<close> are evaluated
  before any replacement is made.  \<open>__do_substitutions\<close> passes the error on for every
  line that holds a token once the variables are substituted.
\<close>

theorem bang_expansion_index_error:
  assumes "lastcmd s \<noteq> []" and "shlex_split (lastcmd s) = Inr argv" and "length argv < 2"
    and "has_bang line"
  shows "do_last_command_substitutions s line
           = (Inl (IndexError ''list index out of range''), s) \<and>
         (\<forall>l. subst_vars (variables s) l = line \<longrightarrow>
            do_substitutions s l = (Inl (IndexError ''list index out of range''), s))"
proof -
  have direct: "do_last_command_substitutions s line
                  = (Inl (IndexError ''list index out of range''), s)"
    using assms(1-3)
    by (cases argv) (simp_all add: do_last_command_substitutions_def list_last_def list_second_def)
  have "do_substitutions s l = (Inl (IndexError ''list index out of range''), s)"
    if "subst_vars (variables s) l = line" for l
  proof -
    from that assms(4) have "l \<noteq> []"
      using subst_vars_Nil has_bang_Nil by metis
    with that assms(4) direct show ?thesis
      by (simp add: do_substitutions_def)
  qed
  with direct show ?thesis by blast
qed

theorem bang_expansion_index_error_witness:
  "do_last_command_substitutions (fresh\<lparr>lastcmd := ''list''\<rparr>) ''echo !$''
     = (Inl (IndexError ''list index out of range''), fresh\<lparr>lastcmd := ''list''\<rparr>) \<and>
   do_substitutions (fresh\<lparr>lastcmd := ''list''\<rparr>) ''echo !$''
     = (Inl (IndexError ''list index out of range''), fresh\<lparr>lastcmd := ''list''\<rparr>)"
proof -
  have a: "lastcmd (fresh\<lparr>lastcmd := ''list''\<rparr>) \<noteq> []" by simp
  have b: "shlex_split (lastcmd (fresh\<lparr>lastcmd := ''list''\<rparr>)) = Inr [''list'']"
    by (simp add: lex_defs)
  have c: "length [''list''] < 2" by simp
  have d: "has_bang ''echo !$''" by (simp add: has_bang_def py_find_def)
  have e: "subst_vars (variables (fresh\<lparr>lastcmd := ''list''\<rparr>)) ''echo !$'' = ''echo !$''"
    by (simp add: fresh_def)
  from bang_expansion_index_error [OF a b c d] e show ?thesis by blast
qed

section \<open>Variable substitution\<close>

text \<open>
  C5, as the code has it.  The variables are taken in table order, one pass each: the
  pass of the last variable of a table runs over the whole line as the passes of the
  variables before it left it.  A pass is a single scan from the left that does not
  scan again what it puts in: a line in which \<open>$name\<close> begins nowhere is left as it
  is, and at the leftmost occurrence of \<open>$name\<close> the value is put in unchanged and
  the scan goes on behind the occurrence.  Text put in by an earlier pass is scanned by
  the later ones and can be expanded there: with \<open>A\<close> set to \<open>$B\<close> and \<open>B\<close> to
  \<open>x\<close>, in this order, the line \<open>$A\<close> becomes \<open>x\<close>.
\<close>

theorem subst_vars_passes:
  "subst_vars [] line = line \<and>
   subst_vars (vs @ [(name, v)]) line
     = py_replace (CHR ''$'' # name) v (subst_vars vs line) \<and>
   ((\<forall>i<length l. \<not> startswith (drop i l) (CHR ''$'' # name)) \<longrightarrow>
      py_replace (CHR ''$'' # name) v l = l) \<and>
   ((\<forall>i<length p. \<not> startswith (drop i (p @ (CHR ''$'' # name) @ r)) (CHR ''$'' # name)) \<longrightarrow>
      py_replace (CHR ''$'' # name) v (p @ (CHR ''$'' # name) @ r)
        = p @ v @ py_replace (CHR ''$'' # name) v r) \<and>
   subst_vars [(''A'', ''$B''), (''B'', ''x'')] ''$A'' = ''x''"
proof -
  have a: "subst_vars (vs @ [(name, v)]) line
             = py_replace (CHR ''$'' # name) v (subst_vars vs line)"
    by (simp add: subst_vars_append)
  have b: "py_replace (CHR ''$'' # name) v l = l"
    if "\<forall>i<length l. \<not> startswith (drop i l) (CHR ''$'' # name)"
    using replace_scan_no_match [OF that] by (simp add: py_replace_def)
  have c: "py_replace (CHR ''$'' # name) v (p @ (CHR ''$'' # name) @ r)
             = p @ v @ py_replace (CHR ''$'' # name) v r"
    if "\<forall>i<length p. \<not> startswith (drop i (p @ (CHR ''$'' # name) @ r)) (CHR ''$'' # name)"
    using replace_scan_leftmost [OF _ that, of v] by (simp add: py_replace_def)
  have d: "subst_vars [(''A'', ''$B''), (''B'', ''x'')] ''$A'' = ''x''"
    by (simp add: py_replace_def)
  from a b c d show ?thesis by simp
qed

text \<open>
  The witness of C5: the variable \<open>A\<close>, whose value \<open>$A!\<close> holds its own token, after
  the variable \<open>B\<close>; a line without \<open>$A\<close>; and a line whose leftmost \<open>$A\<close> is
  behind \<open>x \<close>.  The value put in keeps its \<open>$A\<close>.
\<close>

theorem subst_vars_passes_witness:
  "subst_vars ([(''B'', ''y'')] @ [(''A'', ''$A!'')]) ''$B $A''
     = py_replace ''$A'' ''$A!'' (subst_vars [(''B'', ''y'')] ''$B $A'') \<and>
   py_replace ''$A'' ''$A!'' ''echo'' = ''echo'' \<and>
   py_replace ''$A'' ''$A!'' (''x '' @ ''$A'' @ '' $A'')
     = ''x '' @ ''$A!'' @ py_replace ''$A'' ''$A!'' '' $A'' \<and>
   py_replace ''$A'' ''$A!'' '' $A'' = '' $A!''"
proof -
  have h1: "\<forall>i<length ''echo''. \<not> startswith (drop i ''echo'') (CHR ''$'' # ''A'')"
    by (simp add: All_less_Suc)
  have h2: "\<forall>i<length ''x ''. \<not> startswith (drop i (''x '' @ (CHR ''$'' # ''A'') @ '' $A'')) (CHR ''$'' # ''A'')"
    by (simp add: All_less_Suc)
  have e: "py_replace ''$A'' ''$A!'' '' $A'' = '' $A!''"
    by (simp add: py_replace_def)
  from subst_vars_passes [of "''$B $A''" "[(''B'', ''y'')]" "''A''" "''$A!''" "''echo''" "''x ''" "'' $A''"]
    h1 h2 e
  show ?thesis by simp
qed

text \<open>
  C5 as the claim states it fails: with \<open>A\<close> set to \<open>$B\<close> and \<open>B\<close> set to \<open>x\<close>,
  in this order, the line \<open>$A\<close> becomes \<open>x\<close>: the token \<open>$B\<close> occurs only in the
  value put in for \<open>A\<close>, and it is expanded.
\<close>

theorem substituted_value_is_expanded:
  "do_substitutions (fresh\<lparr>variables := [(''A'', ''$B''), (''B'', ''x'')]\<rparr>) ''$A''
     = (Inr ''x'', fresh\<lparr>variables := [(''A'', ''$B''), (''B'', ''x'')]\<rparr>) \<and>
   py_find ''$A'' ''$B'' = - 1"
  by (simp add: subst_defs)

section \<open>Facts about redirection and dispatch\<close>

lemmas redirect_defs = precmd_def redirect_output_def build_tee_def Tee_new_def rsplit1_def
  py_strip_def py_isspace_def postcmd_def
lemmas dispatch_defs = cycle_def onecmd_def parseline_def split_command_def identchars_def
  default_cmd_def stdout_write_def

lemma do_substitutions_state:
  "do_substitutions s line = (r, s') \<Longrightarrow>
     s' = s \<or> (r = Inr [] \<and> s' = stderr_write (''no previous command'' @ nl) s)"
  by (auto simp: do_substitutions_def do_last_command_substitutions_def
           split: if_splits sum.splits)

lemma do_substitutions_same:
  "do_substitutions s line = (Inr l, s') \<Longrightarrow> l \<noteq> [] \<Longrightarrow> s' = s"
  using do_substitutions_state by blast

lemma shlex_split_Nil: "shlex_split [] = Inr []"
  by (simp add: lex_defs)

lemma rsplit1_snoc: "rsplit1 sep (xs @ [sep]) = Some (xs, [])"
  by (simp add: rsplit1_def)

lemma rsplit1_trailing:
  assumes "s \<noteq> []" and "last s = sep"
  shows "rsplit1 sep s = Some (butlast s, [])"
proof -
  from assms have "s = butlast s @ [sep]"
    using append_butlast_last_id [of s] by simp
  then show ?thesis using rsplit1_snoc by metis
qed

lemma onecmd_empty: "onecmd hs s [] = (Inr False, s)"
  by (simp add: onecmd_def parseline_def py_strip_def)

lemma build_tee_error: "build_tee s console d = (Inl e, s') \<Longrightarrow> s' = s"
  by (auto simp: build_tee_def Tee_new_def split: list.splits if_splits option.splits)

lemma build_tee_ok:
  "build_tee s console d = (Inr t, s') \<Longrightarrow>
     opened s' \<noteq> opened s \<and> output_redirected s' = output_redirected s"
  by (auto simp: build_tee_def Tee_new_def split: list.splits if_splits option.splits)

lemma redirect_output_installed:
  assumes "redirect_output s line = (Inr l, s1)" and "opened s1 \<noteq> opened s"
  shows "output_redirected s1 = Some (stdout s)"
  using assms
  by (auto simp: redirect_output_def stderr_write_def
           split: option.splits if_splits prod.splits sum.splits exn.splits
           dest!: build_tee_error build_tee_ok)

lemma precmd_installed:
  assumes "precmd s line = (Inr l, s1)" and "opened s1 \<noteq> opened s"
  shows "output_redirected s1 = Some (stdout s)"
proof -
  from assms(1) obtain l' s' where sub: "do_substitutions s line = (Inr l', s')"
    by (auto simp: precmd_def split: prod.splits sum.splits)
  from do_substitutions_state [OF sub] have eq: "opened s' = opened s \<and> stdout s' = stdout s"
    by (auto simp: stderr_write_def)
  from assms sub eq show ?thesis
    by (auto simp: precmd_def split: sum.splits if_splits dest: redirect_output_installed)
qed


lemma tokens_nonempty:
  assumes "shlex_split l = Inr parsed" and "''>'' \<in> set parsed \<or> ''>>'' \<in> set parsed"
  shows "l \<noteq> []"
  using assms shlex_split_Nil by auto

lemma rsplit1_suffix: "rsplit1 sep s = Some (a, b) \<Longrightarrow> sep \<notin> set b"
  by (auto simp: rsplit1_def split: if_splits dest: set_takeWhileD)

lemma build_tee_mode:
  "build_tee s console d = (r, s') \<Longrightarrow> CHR ''>'' \<notin> set d \<Longrightarrow>
     opened s' = opened s \<or> (\<exists>p. opened s' = opened s @ [(p, CHR ''w'')])"
  by (auto simp: build_tee_def Tee_new_def split: list.splits option.splits)

text \<open>
  Whatever the line, \<open>__redirect_output\<close> opens no file in append mode: the text
  behind the last \<open>>\<close> holds no \<open>>\<close>, so the test of \<open>__build_tee\<close> is never true.
\<close>

lemma redirect_output_mode:
  assumes "redirect_output s line = (r, s')"
  shows "opened s' = opened s \<or> (\<exists>p. opened s' = opened s @ [(p, CHR ''w'')])"
proof (cases "rsplit1 (CHR ''>'') line")
  case None
  with assms show ?thesis by (simp add: redirect_output_def)
next
  case (Some ld)
  obtain l d where ld: "ld = (l, d)" by (cases ld)
  show ?thesis
  proof (cases "d = []")
    case True
    with assms Some ld show ?thesis
      by (auto simp: redirect_output_def stderr_write_def)
  next
    case False
    obtain r0 s0 where b: "build_tee (s\<lparr>output_redirected := Some (stdout s)\<rparr>) (stdout s) d = (r0, s0)"
      by (cases "build_tee (s\<lparr>output_redirected := Some (stdout s)\<rparr>) (stdout s) d")
    from Some ld have "CHR ''>'' \<notin> set d" using rsplit1_suffix by metis
    from build_tee_mode [OF b this]
    have m: "opened s0 = opened s \<or> (\<exists>p. opened s0 = opened s @ [(p, CHR ''w'')])" by simp
    from assms Some ld False b have "opened s' = opened s0"
      by (auto simp: redirect_output_def stderr_write_def split: sum.splits exn.splits)
    with m show ?thesis by simp
  qed
qed

text \<open>The tokenizer raises nothing but the built-in \<open>ValueError\<close>, which has no \<open>message\<close>.\<close>

lemma lex_error:
  "lex st esc quoted tok s = Inl e \<Longrightarrow> \<exists>m. e = ValueError m None"
proof (induction s arbitrary: st esc quoted tok)
  case Nil
  then show ?case by (auto split: if_splits)
next
  case (Cons c cs)
  have ih: "\<And>st esc quoted tok. lex st esc quoted tok cs = Inl e \<Longrightarrow> \<exists>m. e = ValueError m None"
    by (rule Cons.IH)
  have emit: "\<exists>m. e = ValueError m None"
    if "(case lex (CHR '' '') (CHR '' '') False [] cs of Inl e \<Rightarrow> Inl e | Inr ts \<Rightarrow> Inr (t # ts)) = Inl e" for t
    using that ih [of "CHR '' ''" "CHR '' ''" False "[]"]
    by (cases "lex (CHR '' '') (CHR '' '') False [] cs") simp_all
  from Cons.prems show ?case
    unfolding lex.simps(2)
    by (metis ih emit)
qed

text \<open>
  A \<open>ValueError\<close> of the built-in class raised while the line is prepared ends the
  loop with \<open>AttributeError\<close>, at every line and in every session.
\<close>

lemma loop_parse_error:
  assumes "read_line s = (line, s1)" and "precmd s1 line = (Inl (ValueError m None), s2)"
  shows "loop (Suc n) hs s
           = Some (Inl (AttributeError (sq @ ''ValueError'' @ sq @ '' object has no attribute '' @
                     sq @ ''message'' @ sq)), s2)"
  using assms by (simp add: cycle_def on_value_error_def)

section \<open>Redirection\<close>

text \<open>
  C1, at the input of the claim.  The line \<open>foo bar >> out.txt\<close> is split at its last
  \<open>>\<close>: the destination is \<open> out.txt\<close>, whose first character is a blank, so
  \<open>out.txt\<close> is opened in overwrite mode \<open>w\<close> and the line that goes on to dispatch
  is \<open>foo bar >\<close>.  The line \<open>foo bar > out.txt\<close> opens \<open>out.txt\<close> in overwrite mode
  and passes \<open>foo bar \<close> on.
\<close>

theorem double_chevron_overwrites:
  "precmd fresh ''foo bar >> out.txt''
     = (Inr ''foo bar >'',
        fresh\<lparr>output_redirected := Some 0, stdout := 1,
              heap := [Console, Tee 0 ''out.txt'' (CHR ''w'')],
              opened := [(''out.txt'', CHR ''w'')]\<rparr>) \<and>
   precmd fresh ''foo bar > out.txt''
     = (Inr ''foo bar '',
        fresh\<lparr>output_redirected := Some 0, stdout := 1,
              heap := [Console, Tee 0 ''out.txt'' (CHR ''w'')],
              opened := [(''out.txt'', CHR ''w'')]\<rparr>)"
  by (simp add: redirect_defs subst_defs lex_defs fresh_def)

text \<open>
  C6, as the code has it.  When the substituted line holds a \<open>>\<close> or \<open>>>\<close> token and
  nothing at all follows its last \<open>>\<close>, \<open>precmd\<close> appends
  \<open>No redirection target specified.\<close> to what is written on the error stream and
  returns the empty line; the cycle then ends without consulting any handler, whatever
  the handler table is, and the last command is left as it was.
\<close>

theorem blank_target:
  assumes "do_substitutions s line = (Inr line', s')"
    and "shlex_split line' = Inr parsed"
    and "''>'' \<in> set parsed \<or> ''>>'' \<in> set parsed"
    and "last line' = CHR ''>''"
  shows "fst (precmd s line) = Inr [] \<and>
         stderr (snd (precmd s line)) = stderr s @ [''No redirection target specified.'' @ nl] \<and>
         precmd s line = (Inr [], stderr_write (''No redirection target specified.'' @ nl) s) \<and>
         fst (cycle hs s line) = Inr False \<and>
         stderr (snd (cycle hs s line)) = stderr s @ [''No redirection target specified.'' @ nl] \<and>
         lastcmd (snd (cycle hs s line)) = lastcmd s \<and>
         cycle hs s line
           = (Inr False, snd (postcmd (stderr_write (''No redirection target specified.'' @ nl) s) False []))"
proof -
  have ne: "line' \<noteq> []" using assms(2,3) by (rule tokens_nonempty)
  with assms(1) have same: "s' = s" by (rule do_substitutions_same)
  from ne assms(4) have "rsplit1 (CHR ''>'') line' = Some (butlast line', [])"
    by (rule rsplit1_trailing)
  with assms(1-3) same
  have pre: "precmd s line = (Inr [], stderr_write (''No redirection target specified.'' @ nl) s)"
    by (simp add: precmd_def redirect_output_def)
  then have cyc: "cycle hs s line
           = (Inr False, snd (postcmd (stderr_write (''No redirection target specified.'' @ nl) s) False []))"
    by (simp add: cycle_def onecmd_empty postcmd_def split: option.splits)
  have err: "stderr (snd (postcmd (stderr_write (''No redirection target specified.'' @ nl) s) False []))
               = stderr s @ [''No redirection target specified.'' @ nl]"
    by (simp add: postcmd_def stderr_write_def split: option.splits)
  have lc: "lastcmd (snd (postcmd (stderr_write (''No redirection target specified.'' @ nl) s) False []))
               = lastcmd s"
    by (simp add: postcmd_def stderr_write_def split: option.splits)
  from pre cyc err lc show ?thesis by (simp add: stderr_write_def)
qed

text \<open>The witness of C6: the line \<open>foo bar >\<close>, with a handler table whose \<open>foo\<close> would raise.\<close>

theorem blank_target_witness:
  "fst (precmd fresh ''foo bar >'') = Inr [] \<and>
   stderr (snd (precmd fresh ''foo bar >'')) = [''No redirection target specified.'' @ nl] \<and>
   fst (cycle raising fresh ''foo bar >'') = Inr False \<and>
   stderr (snd (cycle raising fresh ''foo bar >'')) = [''No redirection target specified.'' @ nl] \<and>
   lastcmd (snd (cycle raising fresh ''foo bar >'')) = []"
proof -
  have a: "do_substitutions fresh ''foo bar >'' = (Inr ''foo bar >'', fresh)"
    by (simp add: subst_defs fresh_def)
  have b: "shlex_split ''foo bar >'' = Inr [''foo'', ''bar'', ''>'']"
    by (simp add: lex_defs)
  have c: "''>'' \<in> set [''foo'', ''bar'', ''>''] \<or> ''>>'' \<in> set [''foo'', ''bar'', ''>'']" by simp
  have d: "last ''foo bar >'' = CHR ''>''" by simp
  have e: "stderr fresh = []" "lastcmd fresh = []" by (simp_all add: fresh_def)
  note t = blank_target [OF a b c d, of raising]
  from t have p1: "fst (precmd fresh ''foo bar >'') = Inr []" by blast
  from t have p2: "stderr (snd (precmd fresh ''foo bar >''))
                     = stderr fresh @ [''No redirection target specified.'' @ nl]" by blast
  from t have p3: "fst (cycle raising fresh ''foo bar >'') = Inr False" by blast
  from t have p4: "stderr (snd (cycle raising fresh ''foo bar >''))
                     = stderr fresh @ [''No redirection target specified.'' @ nl]" by blast
  from t have p5: "lastcmd (snd (cycle raising fresh ''foo bar >'')) = lastcmd fresh" by blast
  from p1 p2 p3 p4 p5 e show ?thesis by simp
qed

text \<open>
  C6 as the claim states it fails for a destination name that is blank but not empty:
  on the line \<open>foo bar > \<close> (a blank behind the \<open>>\<close>) the length test passes and the
  stripped, empty name goes to the \<open>Tee\<close>.  Where opening the empty name is refused
  the message is the one of a failed open; where it is not, \<open>foo bar \<close> is dispatched.
  In neither case is \<open>No redirection target specified.\<close> written.
\<close>

theorem whitespace_target:
  "fst (precmd fresh ''foo bar > '') = Inr [] \<and>
   stderr (snd (precmd fresh ''foo bar > ''))
     = [''Error processing your redirection target: No such file or directory.e'' @ nl] \<and>
   fst (precmd (fresh\<lparr>open_error := (\<lambda>path mode. None)\<rparr>) ''foo bar > '') = Inr ''foo bar '' \<and>
   stderr (snd (precmd (fresh\<lparr>open_error := (\<lambda>path mode. None)\<rparr>) ''foo bar > '')) = []"
  by (simp add: redirect_defs subst_defs lex_defs fresh_def)

text \<open>
  C10.  When the line holds a redirection token, its destination is not empty and
  building the \<open>Tee\<close> raises \<open>IOError\<close>, then \<open>precmd\<close> appends the error with its
  \<open>strerror\<close> to what is written on the error stream and returns the empty line; the
  cycle consults no handler, and after its \<open>postcmd\<close> the output stream is the
  reference it was before.
\<close>

theorem open_fails:
  assumes "do_substitutions s line = (Inr line', s')"
    and "shlex_split line' = Inr parsed"
    and "''>'' \<in> set parsed \<or> ''>>'' \<in> set parsed"
    and "rsplit1 (CHR ''>'') line' = Some (l, d)" and "d \<noteq> []"
    and "build_tee (s\<lparr>output_redirected := Some (stdout s)\<rparr>) (stdout s) d = (Inl (IOError n m), s'')"
  shows "precmd s line
           = (Inr [], stderr_write (''Error processing your redirection target: '' @ m @ ''.e'' @ nl)
                        (s\<lparr>output_redirected := Some (stdout s)\<rparr>)) \<and>
         stderr (snd (precmd s line))
           = stderr s @ [''Error processing your redirection target: '' @ m @ ''.e'' @ nl] \<and>
         cycle hs s line
           = (Inr False, (stderr_write (''Error processing your redirection target: '' @ m @ ''.e'' @ nl) s)
                           \<lparr>output_redirected := None\<rparr>) \<and>
         stderr (snd (cycle hs s line))
           = stderr s @ [''Error processing your redirection target: '' @ m @ ''.e'' @ nl] \<and>
         lastcmd (snd (cycle hs s line)) = lastcmd s \<and>
         stdout (snd (cycle hs s line)) = stdout s"
proof -
  have ne: "line' \<noteq> []" using assms(2,3) by (rule tokens_nonempty)
  with assms(1) have same: "s' = s" by (rule do_substitutions_same)
  from assms(6) have s'': "s'' = s\<lparr>output_redirected := Some (stdout s)\<rparr>"
    by (rule build_tee_error)
  from assms(1-6) same s''
  have pre: "precmd s line
           = (Inr [], stderr_write (''Error processing your redirection target: '' @ m @ ''.e'' @ nl)
                        (s\<lparr>output_redirected := Some (stdout s)\<rparr>))"
    by (simp add: precmd_def redirect_output_def)
  then have cyc: "cycle hs s line
           = (Inr False, (stderr_write (''Error processing your redirection target: '' @ m @ ''.e'' @ nl) s)
                           \<lparr>output_redirected := None\<rparr>)"
    by (simp add: cycle_def onecmd_empty postcmd_def stderr_write_def)
  from pre cyc show ?thesis by (simp add: stderr_write_def)
qed

text \<open>The witness of C10: every open is refused with \<open>Permission denied\<close>.\<close>

theorem open_fails_witness:
  "fst (precmd (fresh\<lparr>open_error := (\<lambda>path mode. Some (13, ''Permission denied''))\<rparr>)
          ''foo bar > out.txt'') = Inr [] \<and>
   stderr (snd (precmd (fresh\<lparr>open_error := (\<lambda>path mode. Some (13, ''Permission denied''))\<rparr>)
          ''foo bar > out.txt''))
     = [''Error processing your redirection target: Permission denied.e'' @ nl] \<and>
   fst (cycle raising (fresh\<lparr>open_error := (\<lambda>path mode. Some (13, ''Permission denied''))\<rparr>)
          ''foo bar > out.txt'') = Inr False \<and>
   stderr (snd (cycle raising (fresh\<lparr>open_error := (\<lambda>path mode. Some (13, ''Permission denied''))\<rparr>)
          ''foo bar > out.txt''))
     = [''Error processing your redirection target: Permission denied.e'' @ nl] \<and>
   stdout (snd (cycle raising (fresh\<lparr>open_error := (\<lambda>path mode. Some (13, ''Permission denied''))\<rparr>)
          ''foo bar > out.txt'')) = 0"
proof -
  let ?s = "fresh\<lparr>open_error := (\<lambda>path mode. Some (13, ''Permission denied''))\<rparr>"
  have a: "do_substitutions ?s ''foo bar > out.txt'' = (Inr ''foo bar > out.txt'', ?s)"
    by (simp add: subst_defs fresh_def)
  have b: "shlex_split ''foo bar > out.txt'' = Inr [''foo'', ''bar'', ''>'', ''out.txt'']"
    by (simp add: lex_defs)
  have c: "''>'' \<in> set [''foo'', ''bar'', ''>'', ''out.txt''] \<or>
           ''>>'' \<in> set [''foo'', ''bar'', ''>'', ''out.txt'']" by simp
  have d: "rsplit1 (CHR ''>'') ''foo bar > out.txt'' = Some (''foo bar '', '' out.txt'')"
    by (simp add: rsplit1_def)
  have e: "'' out.txt'' \<noteq> []" by simp
  have f: "build_tee (?s\<lparr>output_redirected := Some (stdout ?s)\<rparr>) (stdout ?s) '' out.txt''
             = (Inl (IOError 13 ''Permission denied''), ?s\<lparr>output_redirected := Some (stdout ?s)\<rparr>)"
    by (simp add: build_tee_def Tee_new_def fresh_def)
  have g: "stderr ?s = []" "stdout ?s = 0" by (simp_all add: fresh_def)
  note t = open_fails [OF a b c d e f, of raising]
  from t have p1: "stderr (snd (precmd ?s ''foo bar > out.txt''))
      = stderr ?s @ [''Error processing your redirection target: '' @ ''Permission denied'' @ ''.e'' @ nl]"
    by blast
  from t have p2: "stderr (snd (cycle raising ?s ''foo bar > out.txt''))
      = stderr ?s @ [''Error processing your redirection target: '' @ ''Permission denied'' @ ''.e'' @ nl]"
    by blast
  from t have p3: "stdout (snd (cycle raising ?s ''foo bar > out.txt'')) = stdout ?s" by blast
  from t have p4: "fst (precmd ?s ''foo bar > out.txt'') = Inr []" by simp
  from t have p5: "fst (cycle raising ?s ''foo bar > out.txt'') = Inr False" by simp
  from p1 p2 p3 p4 p5 g show ?thesis by simp
qed

text \<open>
  C2, as the code has it.  When \<open>precmd\<close> has installed a redirection (it opened a
  destination) and the dispatched command returns, leaving the saved reference alone,
  \<open>postcmd\<close> runs: the output stream is again the reference it was before \<open>precmd\<close>
  and the saved reference is cleared.  When the dispatched command raises, the cycle
  ends with that exception and the session is as the command left it: \<open>postcmd\<close> has
  not run.
\<close>

theorem restore_after_return:
  assumes "precmd s line = (Inr line', s1)" and "opened s1 \<noteq> opened s"
    and "onecmd hs s1 line' = (r, s2)"
    and "output_redirected s2 = output_redirected s1"
  shows "cycle hs s line
           = (case r of
                Inr stop \<Rightarrow> (Inr stop, s2\<lparr>stdout := stdout s, output_redirected := None\<rparr>)
              | Inl e \<Rightarrow> (Inl e, s2))"
proof -
  from assms(1,2) have "output_redirected s1 = Some (stdout s)" by (rule precmd_installed)
  with assms show ?thesis
    by (simp add: cycle_def postcmd_def split: sum.splits)
qed

text \<open>The witness of C2: \<open>foo bar > out.txt\<close> with a handler that returns.\<close>

theorem restore_after_return_witness:
  "cycle quiet fresh ''foo bar > out.txt''
     = (Inr False,
        fresh\<lparr>lastcmd := ''foo bar'',
              heap := [Console, Tee 0 ''out.txt'' (CHR ''w'')],
              opened := [(''out.txt'', CHR ''w'')]\<rparr>) \<and>
   stdout (snd (cycle quiet fresh ''foo bar > out.txt'')) = stdout fresh"
proof -
  let ?s1 = "fresh\<lparr>output_redirected := Some 0, stdout := 1,
              heap := [Console, Tee 0 ''out.txt'' (CHR ''w'')],
              opened := [(''out.txt'', CHR ''w'')]\<rparr>"
  have a: "precmd fresh ''foo bar > out.txt'' = (Inr ''foo bar '', ?s1)"
    by (simp add: redirect_defs subst_defs lex_defs fresh_def)
  have b: "opened ?s1 \<noteq> opened fresh" by (simp add: fresh_def)
  have c: "onecmd quiet ?s1 ''foo bar '' = (Inr False, ?s1\<lparr>lastcmd := ''foo bar''\<rparr>)"
    by (simp add: dispatch_defs py_strip_def py_isspace_def quiet_def)
  have d: "output_redirected (?s1\<lparr>lastcmd := ''foo bar''\<rparr>) = output_redirected ?s1" by simp
  show ?thesis
    using restore_after_return [OF a b c d] by (simp add: fresh_def)
qed

text \<open>
  C2 as the claim states it fails on an error.  With a handler that raises, the cycle
  of \<open>foo bar > out.txt\<close> ends with the output stream still the \<open>Tee\<close> (reference 1,
  not the console 0) and the saved reference still set; so does a cycle whose dispatch
  fails to tokenize the line that redirection left behind; and when the whole loop has
  ended on the handler's error, the output stream is still the \<open>Tee\<close>.
\<close>

theorem restore_skipped_on_error:
  "fst (cycle raising fresh ''foo bar > out.txt'') = Inl (OtherError ''boom'') \<and>
   stdout (snd (cycle raising fresh ''foo bar > out.txt'')) = 1 \<and>
   output_redirected (snd (cycle raising fresh ''foo bar > out.txt'')) = Some 0 \<and>
   stdout fresh = 0 \<and>
   fst (cycle quiet fresh (''bar > '' @ dq @ ''a>b'' @ dq))
     = Inl (ValueError ''No closing quotation'' None) \<and>
   stdout (snd (cycle quiet fresh (''bar > '' @ dq @ ''a>b'' @ dq))) = 1 \<and>
   map_option (\<lambda>(r, S). (r, stdout S, output_redirected S, stderr S))
       (cmdloop 1 raising (fresh\<lparr>cmdqueue := [''foo bar > out.txt'']\<rparr>))
     = Some (Inr (), 1, Some 0, [''Exception occured: boom'' @ nl])"
  by (simp add: cmdloop_def preloop_def push_completer_def pop_completer_def top_file_def
        read_line_def on_value_error_def handleException_def redirect_defs dispatch_defs
        subst_defs lex_defs fresh_def quiet_def raising_def sq_def dq_def)

section \<open>The loop on a line with unbalanced quotes\<close>

text \<open>
  C4, at a failing input.  The queue holds \<open>foo "bar\<close> and then \<open>foo\<close>.  The
  tokenizer raises \<open>ValueError\<close>; the handler of the loop reads \<open>e.message\<close>, which the
  exception does not have, so \<open>AttributeError\<close> leaves the loop: the only text on the
  error stream is the report of that error, the message about quotation marks is not
  written, the loop has ended and the second line is still in the queue.
\<close>

theorem unbalanced_quote_ends_loop:
  "map_option (\<lambda>(r, S). (r, stderr S, cmdqueue S, printed S))
       (cmdloop 1 quiet (fresh\<lparr>cmdqueue := [''foo '' @ dq @ ''bar'', ''foo'']\<rparr>))
     = Some (Inr (),
             [''Exception occured: '' @ sq @ ''ValueError'' @ sq @ '' object has no attribute '' @
              sq @ ''message'' @ sq @ nl],
             [''foo''], [''Loop exception''])"
  by (simp add: cmdloop_def preloop_def push_completer_def pop_completer_def top_file_def
        read_line_def on_value_error_def handleException_def redirect_defs dispatch_defs
        subst_defs lex_defs fresh_def quiet_def sq_def dq_def)

section \<open>The completer stack\<close>













lemma top_file_snoc:
  "top_file (hs @ [h]) = (case h of None \<Rightarrow> None | Some p \<Rightarrow> if p = [] then None else Some p)"
  by (simp add: top_file_def split: option.splits)










end
